theory Spec2Isabelle
  imports Main "HOL-Library.Word"
begin

unbundle bit_operations_syntax

section \<open>The pteraform apply resource\<close>

text \<open>
  A shallow embedding of the resource implementation of the provider (the file that
  declares \<open>ApplyResource\<close>): the data model, \<open>ApplyResourceModel.ID\<close>,
  \<open>ApplyResource.doApply\<close> and the four lifecycle verbs \<open>Create\<close>, \<open>Read\<close>,
  \<open>Update\<close> and \<open>Delete\<close>.

  The Go code talks to three collaborators, each made explicit here:
  \<^item> the file system, a map from path names to entries, read by \<open>os.Open\<close> and
    \<open>io.Copy\<close>;
  \<^item> the external \<open>terraform\<close> binary, a parameter \<open>tf\<close> of every function that
    can start a process; each started process is appended to a trace kept in the world;
  \<^item> the plugin framework, whose plan, state and diagnostics values are modelled by
    what the calls used in the source return.
  Go's \<open>error\<close> values are built with \<open>fmt.Errorf\<close> and \<open>%s\<close> only, so an error is its
  message: \<open>string option\<close>, with \<open>None\<close> for \<open>nil\<close>.
\<close>

subsection \<open>SHA-256 (\<open>crypto/sha256\<close>) and \<open>%x\<close>\<close>

type_synonym byte = "8 word"
type_synonym u32 = "32 word"

text \<open>The round constants, one row for each eight rounds.\<close>

definition sha256_K :: "u32 list" where
  "sha256_K = concat [
    [0x428a2f98, 0x71374491, 0xb5c0fbcf, 0xe9b5dba5, 0x3956c25b, 0x59f111f1, 0x923f82a4, 0xab1c5ed5],
    [0xd807aa98, 0x12835b01, 0x243185be, 0x550c7dc3, 0x72be5d74, 0x80deb1fe, 0x9bdc06a7, 0xc19bf174],
    [0xe49b69c1, 0xefbe4786, 0x0fc19dc6, 0x240ca1cc, 0x2de92c6f, 0x4a7484aa, 0x5cb0a9dc, 0x76f988da],
    [0x983e5152, 0xa831c66d, 0xb00327c8, 0xbf597fc7, 0xc6e00bf3, 0xd5a79147, 0x06ca6351, 0x14292967],
    [0x27b70a85, 0x2e1b2138, 0x4d2c6dfc, 0x53380d13, 0x650a7354, 0x766a0abb, 0x81c2c92e, 0x92722c85],
    [0xa2bfe8a1, 0xa81a664b, 0xc24b8b70, 0xc76c51a3, 0xd192e819, 0xd6990624, 0xf40e3585, 0x106aa070],
    [0x19a4c116, 0x1e376c08, 0x2748774c, 0x34b0bcb5, 0x391c0cb3, 0x4ed8aa4a, 0x5b9cca4f, 0x682e6ff3],
    [0x748f82ee, 0x78a5636f, 0x84c87814, 0x8cc70208, 0x90befffa, 0xa4506ceb, 0xbef9a3f7, 0xc67178f2]]"

text \<open>Four bytes, most significant first, as one 32-bit word, and back.\<close>

definition be_word :: "byte list \<Rightarrow> u32" where
  "be_word bs = foldl (\<lambda>w b. push_bit 8 w OR ucast b) 0 bs"

definition be_bytes :: "u32 \<Rightarrow> byte list" where
  "be_bytes w = [ucast (drop_bit 24 w), ucast (drop_bit 16 w), ucast (drop_bit 8 w), ucast w]"

definition be_bytes64 :: "64 word \<Rightarrow> byte list" where
  "be_bytes64 w = map (\<lambda>i. ucast (drop_bit (8 * i) w)) [7, 6, 5, 4, 3, 2, 1, 0]"

text \<open>
  Padding: the byte \<open>0x80\<close>, zero bytes up to 56 modulo 64, and the length of the message
  in bits as a 64-bit big-endian number (the digest keeps the length in a \<open>uint64\<close>).
\<close>

definition sha256_pad :: "byte list \<Rightarrow> byte list" where
  "sha256_pad m = m @ [0x80] @ replicate ((119 - length m mod 64) mod 64) 0
                    @ be_bytes64 (of_nat (8 * length m))"

fun chunks :: "nat \<Rightarrow> 'a list \<Rightarrow> 'a list list" where
  "chunks n [] = []"
| "chunks n (x # xs) = (if n = 0 then [] else take n (x # xs) # chunks n (drop n (x # xs)))"

text \<open>The message schedule: \<open>schedule 48\<close> extends the 16 words of a block to 64.\<close>

fun schedule :: "nat \<Rightarrow> u32 list \<Rightarrow> u32 list" where
  "schedule 0 w = w"
| "schedule (Suc n) w =
     (let i = length w;
          v15 = w ! (i - 15); v2 = w ! (i - 2);
          s0 = word_rotr 7 v15 XOR word_rotr 18 v15 XOR drop_bit 3 v15;
          s1 = word_rotr 17 v2 XOR word_rotr 19 v2 XOR drop_bit 10 v2
      in schedule n (w @ [w ! (i - 16) + s0 + w ! (i - 7) + s1]))"

type_synonym sha_regs = "u32 \<times> u32 \<times> u32 \<times> u32 \<times> u32 \<times> u32 \<times> u32 \<times> u32"

fun round256 :: "sha_regs \<Rightarrow> u32 \<times> u32 \<Rightarrow> sha_regs" where
  "round256 (a, b, c, d, e, f, g, h) (k, w) =
     (let t1 = h + (word_rotr 6 e XOR word_rotr 11 e XOR word_rotr 25 e)
                 + ((e AND f) XOR (NOT e AND g)) + k + w;
          t2 = (word_rotr 2 a XOR word_rotr 13 a XOR word_rotr 22 a)
                 + ((a AND b) XOR (a AND c) XOR (b AND c))
      in (t1 + t2, a, b, c, d + t1, e, f, g))"

fun block256 :: "sha_regs \<Rightarrow> byte list \<Rightarrow> sha_regs" where
  "block256 (h0, h1, h2, h3, h4, h5, h6, h7) p =
     (let w = schedule 48 (map be_word (chunks 4 p));
          (a, b, c, d, e, f, g, h) =
             foldl round256 (h0, h1, h2, h3, h4, h5, h6, h7) (zip sha256_K w)
      in (h0 + a, h1 + b, h2 + c, h3 + d, h4 + e, h5 + f, h6 + g, h7 + h))"

text \<open>
  \<open>h := sha256.New(); h.Write(m); h.Sum(nil)\<close>: the 32 bytes of the digest of \<open>m\<close>.
\<close>

definition sha256_Sum :: "byte list \<Rightarrow> byte list" where
  "sha256_Sum m =
     (let (h0, h1, h2, h3, h4, h5, h6, h7) =
            foldl block256 (0x6a09e667, 0xbb67ae85, 0x3c6ef372, 0xa54ff53a,
                            0x510e527f, 0x9b05688c, 0x1f83d9ab, 0x5be0cd19)
                  (chunks 64 (sha256_pad m))
      in concat (map be_bytes [h0, h1, h2, h3, h4, h5, h6, h7]))"

text \<open>\<open>fmt.Sprintf("%x", bs)\<close> on a byte slice: two lowercase hexadecimal digits a byte.\<close>

definition hexdigit :: "nat \<Rightarrow> char" where
  "hexdigit n = ''0123456789abcdef'' ! (n mod 16)"

definition Sprintf_x :: "byte list \<Rightarrow> string" where
  "Sprintf_x bs = concat (map (\<lambda>b. [hexdigit (unat b div 16), hexdigit (unat b mod 16)]) bs)"

text \<open>The bytes of a string constant (a Go string is its bytes).\<close>

definition bytes_of :: "string \<Rightarrow> byte list" where
  "bytes_of s = map (\<lambda>c. of_nat (of_char c)) s"

subsection \<open>Framework values: attribute values and diagnostics\<close>

text \<open>
  \<open>types.String\<close> and \<open>types.List\<close> are null, unknown or known. \<open>ValueString\<close> is the
  empty string on a null or unknown value.
\<close>

datatype tf_string = StringNull | StringUnknown | StringValue string

datatype tf_list = ListNull | ListUnknown | ListValue "tf_string list"

fun ValueString :: "tf_string \<Rightarrow> string" where
  "ValueString (StringValue s) = s"
| "ValueString StringNull = []"
| "ValueString StringUnknown = []"

fun is_known :: "tf_string \<Rightarrow> bool" where
  "is_known (StringValue s) = True"
| "is_known StringNull = False"
| "is_known StringUnknown = False"

record ApplyResourceModel =
  WorkingDir :: tf_string
  Args :: tf_list
  Id_attr :: tf_string

datatype severity = SeverityError | SeverityWarning

record Diagnostic =
  Severity :: severity
  Summary :: string
  Detail :: string

definition HasError :: "Diagnostic list \<Rightarrow> bool" where
  "HasError ds = list_ex (\<lambda>d. Severity d = SeverityError) ds"

definition Errors :: "Diagnostic list \<Rightarrow> Diagnostic list" where
  "Errors ds = filter (\<lambda>d. Severity d = SeverityError) ds"

text \<open>\<open>Diagnostics.Append\<close> skips a diagnostic the collection already contains.\<close>

definition Append :: "Diagnostic list \<Rightarrow> Diagnostic list \<Rightarrow> Diagnostic list" where
  "Append ds new = foldl (\<lambda>acc d. if d \<in> set acc then acc else acc @ [d]) ds new"

definition AddError :: "string \<Rightarrow> string \<Rightarrow> Diagnostic list \<Rightarrow> Diagnostic list" where
  "AddError summary detail ds =
     Append ds [\<lparr>Severity = SeverityError, Summary = summary, Detail = detail\<rparr>]"

text \<open>
  \<open>fmt\<close>'s \<open>%v\<close> on a list of diagnostics, used in one error message of \<open>doApply\<close>: the
  structs between brackets, their attribute paths left out.
\<close>

fun unwords :: "string list \<Rightarrow> string" where
  "unwords [] = []"
| "unwords [s] = s"
| "unwords (s # t # ss) = s @ '' '' @ unwords (t # ss)"

definition show_diags :: "Diagnostic list \<Rightarrow> string" where
  "show_diags ds =
     ''['' @ unwords (map (\<lambda>d. ''{'' @ Detail d @ '' '' @ Summary d @ ''}'') ds) @ '']''"

text \<open>
  \<open>Args.ElementsAs(ctx, &args, false)\<close> into a \<open>[]string\<close>: a null list leaves the slice
  nil, an unknown list or a null or unknown element is an error (the last argument
  forbids unhandled values), a list of known strings gives their values in order. The
  framework is not part of the repository; the texts of its diagnostic are shortened
  here, and only the presence of an error is used below.
\<close>

definition unhandled :: "string \<Rightarrow> Diagnostic list" where
  "unhandled what =
     [\<lparr>Severity = SeverityError, Summary = ''Value Conversion Error'', Detail = what\<rparr>]"

definition ElementsAs :: "tf_list \<Rightarrow> Diagnostic list \<times> string list" where
  "ElementsAs l =
     (case l of
        ListNull \<Rightarrow> ([], [])
      | ListUnknown \<Rightarrow> (unhandled ''unhandled unknown value'', [])
      | ListValue es \<Rightarrow>
          if list_all is_known es then ([], map ValueString es)
          else (unhandled ''unhandled null or unknown element'', []))"

text \<open>
  A plan or a state of the framework, as far as the source looks at it: what
  \<open>Get(ctx, &data)\<close> returns, the diagnostics and the decoded model. \<open>State.Set\<close> stores
  a model, which then decodes without diagnostics.
\<close>

record tfsdk_data =
  Get_diags :: "Diagnostic list"
  Get_data :: ApplyResourceModel

definition Get :: "tfsdk_data \<Rightarrow> Diagnostic list \<times> ApplyResourceModel" where
  "Get p = (Get_diags p, Get_data p)"

definition State_Set :: "ApplyResourceModel \<Rightarrow> tfsdk_data \<times> Diagnostic list" where
  "State_Set data = (\<lparr>Get_diags = [], Get_data = data\<rparr>, [])"

record CreateRequest =
  create_Plan :: tfsdk_data

record ReadRequest =
  read_State :: tfsdk_data

record UpdateRequest =
  update_Plan :: tfsdk_data
  update_State :: tfsdk_data

record DeleteRequest =
  delete_State :: tfsdk_data

text \<open>
  The response of every verb has the two fields the source uses. The caller passes it
  in (the Go functions take a pointer) and reads it after the call.
\<close>

record Response =
  Diagnostics :: "Diagnostic list"
  State :: tfsdk_data

subsection \<open>The world: files and external processes\<close>

text \<open>
  An entry of the file system: a file that reads to the end, one that \<open>os.Open\<close> refuses
  or one whose reading fails, both with the text of the system's error. A path that
  the map does not have does not exist.
\<close>

datatype fs_entry = Contents "byte list" | OpenFails string | ReadFails string

record Cmd =
  cmd_Path :: string
  cmd_Args :: "string list"
  cmd_Dir :: string

record world =
  files :: "string \<rightharpoonup> fs_entry"
  procs :: "Cmd list"

text \<open>
  The external program: for a command and the world it starts in, the files it leaves,
  its combined standard output and error, and the error of \<open>cmd.Run\<close> (\<open>None\<close> when it
  exits with status 0).
\<close>

type_synonym tool = "Cmd \<Rightarrow> world \<Rightarrow> (string \<rightharpoonup> fs_entry) \<times> string \<times> string option"

text \<open>\<open>exec.CommandContext(ctx, name, arg...)\<close>: \<open>Args\<close> holds the name and the arguments.\<close>

definition CommandContext :: "string \<Rightarrow> string list \<Rightarrow> Cmd" where
  "CommandContext name arg = \<lparr>cmd_Path = name, cmd_Args = name # arg, cmd_Dir = []\<rparr>"

text \<open>
  \<open>cmd.Run()\<close> with \<open>Stdout\<close> and \<open>Stderr\<close> set to the buffer \<open>buf\<close>: the process is
  recorded in the trace, its output is written after what the buffer holds.
\<close>

definition Run :: "tool \<Rightarrow> Cmd \<Rightarrow> string \<Rightarrow> world \<Rightarrow> world \<times> string \<times> string option" where
  "Run tf cmd buf w =
     (let (fs, out, err) = tf cmd w
      in (w\<lparr>files := fs, procs := procs w @ [cmd]\<rparr>, buf @ out, err))"

text \<open>
  \<open>filepath.Join\<close> of a directory and a file name: an empty directory is dropped. The
  lexical cleaning of the result is left to the lookup in \<open>files\<close>.
\<close>

definition filepath_Join :: "string \<Rightarrow> string \<Rightarrow> string" where
  "filepath_Join dir name = (if dir = [] then name else dir @ ''/'' @ name)"

definition os_Open :: "world \<Rightarrow> string \<Rightarrow> string + fs_entry" where
  "os_Open w p =
     (case files w p of
        None \<Rightarrow> Inl (''open '' @ p @ '': no such file or directory'')
      | Some (OpenFails e) \<Rightarrow> Inl (''open '' @ p @ '': '' @ e)
      | Some f \<Rightarrow> Inr f)"

text \<open>\<open>io.Copy(h, f)\<close>: all the bytes of the file reach the hash, or reading fails.\<close>

fun io_Copy :: "string \<Rightarrow> fs_entry \<Rightarrow> string + byte list" where
  "io_Copy p (Contents bs) = Inr bs"
| "io_Copy p (ReadFails e) = Inl (''read '' @ p @ '': '' @ e)"
| "io_Copy p (OpenFails e) = Inl (''read '' @ p @ '': '' @ e)"

subsection \<open>\<open>ApplyResourceModel.ID\<close>\<close>

definition artifact :: "ApplyResourceModel \<Rightarrow> string" where
  "artifact m = filepath_Join (ValueString (WorkingDir m)) ''terraform.tfstate''"

definition ID :: "world \<Rightarrow> ApplyResourceModel \<Rightarrow> string \<times> string option" where
  "ID w m =
     (case os_Open w (artifact m) of
        Inl err \<Rightarrow> ([], Some (''Unable to open terraform.tfstate, got error: '' @ err))
      | Inr f \<Rightarrow>
          (case io_Copy (artifact m) f of
             Inl err \<Rightarrow> ([], Some (''Unable to read terraform.tfstate, got error: '' @ err))
           | Inr bs \<Rightarrow> (Sprintf_x (sha256_Sum bs), None)))"

subsection \<open>\<open>ApplyResource.doApply\<close>\<close>

definition init_cmd :: "ApplyResourceModel \<Rightarrow> Cmd" where
  "init_cmd data =
     (CommandContext ''terraform'' [''init'']) \<lparr>cmd_Dir := ValueString (WorkingDir data)\<rparr>"

definition apply_cmd :: "ApplyResourceModel \<Rightarrow> string list \<Rightarrow> Cmd" where
  "apply_cmd data args =
     (CommandContext ''terraform'' ([''apply'', ''-auto-approve''] @ args))
        \<lparr>cmd_Dir := ValueString (WorkingDir data)\<rparr>"

text \<open>
  The buffer \<open>buf\<close> collects the output of the running phase; \<open>buf.Reset()\<close> empties it
  after a phase that succeeded. The context \<open>ctx\<close> only reaches the processes: an
  interrupted process is one whose \<open>Run\<close> returns an error.
\<close>

definition doApply :: "tool \<Rightarrow> world \<Rightarrow> ApplyResourceModel \<Rightarrow> world \<times> string option" where
  "doApply tf w data =
     (let buf0 = [];
          (w1, buf1, err) = Run tf (init_cmd data) buf0 w
      in case err of
           Some e \<Rightarrow>
             (w1, Some (''terraform init failed, got error: '' @ e @ '', output: '' @ buf1))
         | None \<Rightarrow>
             (let buf2 = [];
                  (diag, args) = ElementsAs (Args data)
              in if HasError diag
                 then (w1, Some (''errors getting args: '' @ show_diags (Errors diag)))
                 else
                   (let (w2, buf3, err) = Run tf (apply_cmd data args) buf2 w1
                    in case err of
                         Some e \<Rightarrow>
                           (w2, Some (''terraform apply failed, got error: '' @ e
                                        @ '', output: '' @ buf3))
                       | None \<Rightarrow> (w2, None))))"

subsection \<open>The lifecycle verbs\<close>

text \<open>
  Each verb decodes its request into \<open>data\<close> and returns at once when the diagnostics
  hold an error. After that the source has no other \<open>return\<close>: an error of \<open>doApply\<close> or
  of \<open>ID\<close> is added to the diagnostics and the next statement runs.
\<close>

definition Create :: "tool \<Rightarrow> world \<Rightarrow> CreateRequest \<Rightarrow> Response \<Rightarrow> world \<times> Response" where
  "Create tf w req resp =
     (let (ds, data) = Get (create_Plan req);
          resp0 = resp\<lparr>Diagnostics := Append (Diagnostics resp) ds\<rparr>
      in if HasError (Diagnostics resp0) then (w, resp0)
         else
           (let (w1, err) = doApply tf w data;
                resp1 = (case err of
                           Some e \<Rightarrow> resp0\<lparr>Diagnostics := AddError ''Client Error''
                               (''Unable to run terraform apply, got error: '' @ e)
                               (Diagnostics resp0)\<rparr>
                         | None \<Rightarrow> resp0);
                (id, err) = ID w1 data;
                resp2 = (case err of
                           Some e \<Rightarrow> resp1\<lparr>Diagnostics := AddError ''Client Error''
                               (''Unable to get ID, got error: '' @ e) (Diagnostics resp1)\<rparr>
                         | None \<Rightarrow> resp1);
                (st, ds) = State_Set (data\<lparr>Id_attr := StringValue id\<rparr>)
            in (w1, resp2\<lparr>State := st, Diagnostics := Append (Diagnostics resp2) ds\<rparr>)))"

definition Read :: "world \<Rightarrow> ReadRequest \<Rightarrow> Response \<Rightarrow> world \<times> Response" where
  "Read w req resp =
     (let (ds, data) = Get (read_State req);
          resp0 = resp\<lparr>Diagnostics := Append (Diagnostics resp) ds\<rparr>
      in if HasError (Diagnostics resp0) then (w, resp0)
         else
           (let (id, err) = ID w data;
                resp1 = (case err of
                           Some e \<Rightarrow> resp0\<lparr>Diagnostics := AddError ''Client Error''
                               (''Unable to get ID, got error: '' @ e) (Diagnostics resp0)\<rparr>
                         | None \<Rightarrow> resp0);
                (st, ds) = State_Set (data\<lparr>Id_attr := StringValue id\<rparr>)
            in (w, resp1\<lparr>State := st, Diagnostics := Append (Diagnostics resp1) ds\<rparr>)))"

definition Update :: "tool \<Rightarrow> world \<Rightarrow> UpdateRequest \<Rightarrow> Response \<Rightarrow> world \<times> Response" where
  "Update tf w req resp =
     (let (ds, data) = Get (update_Plan req);
          resp0 = resp\<lparr>Diagnostics := Append (Diagnostics resp) ds\<rparr>
      in if HasError (Diagnostics resp0) then (w, resp0)
         else
           (let (w1, err) = doApply tf w data;
                resp1 = (case err of
                           Some e \<Rightarrow> resp0\<lparr>Diagnostics := AddError ''Client Error''
                               (''Unable to run terraform apply, got error: '' @ e)
                               (Diagnostics resp0)\<rparr>
                         | None \<Rightarrow> resp0);
                (id, err) = ID w1 data;
                resp2 = (case err of
                           Some e \<Rightarrow> resp1\<lparr>Diagnostics := AddError ''Client Error''
                               (''Unable to get ID, got error: '' @ e) (Diagnostics resp1)\<rparr>
                         | None \<Rightarrow> resp1);
                (st, ds) = State_Set (data\<lparr>Id_attr := StringValue id\<rparr>)
            in (w1, resp2\<lparr>State := st, Diagnostics := Append (Diagnostics resp2) ds\<rparr>)))"

definition Delete :: "world \<Rightarrow> DeleteRequest \<Rightarrow> Response \<Rightarrow> world \<times> Response" where
  "Delete w req resp =
     (let (ds, data) = Get (delete_State req);
          resp0 = resp\<lparr>Diagnostics := Append (Diagnostics resp) ds\<rparr>
      in if HasError (Diagnostics resp0) then (w, resp0)
         else (w, resp0))"

subsection \<open>Sample inputs\<close>

text \<open>
  Three behaviours of the external program and two worlds, for evaluating the model:
  a program whose \<open>apply\<close> writes the state artifact, one whose \<open>init\<close> fails, one
  whose \<open>apply\<close> fails; a world without files and one where directory \<open>A\<close> holds an
  (empty) state artifact left by an earlier run.
\<close>

definition tf_sample :: tool where
  "tf_sample cmd w =
     (if cmd_Args cmd = [''terraform'', ''init'']
      then (files w, ''Terraform has been successfully initialized!'', None)
      else ((files w)(filepath_Join (cmd_Dir cmd) ''terraform.tfstate''
                        \<mapsto> Contents (bytes_of ''abc'')),
            ''Apply complete!'', None))"

definition tf_init_fails :: tool where
  "tf_init_fails cmd w =
     (files w, ''Error: Failed to query available provider packages'', Some ''exit status 1'')"

definition tf_apply_fails :: tool where
  "tf_apply_fails cmd w =
     (if cmd_Args cmd = [''terraform'', ''init'']
      then (files w, ''Terraform has been successfully initialized!'', None)
      else (files w, ''Error: Invalid value for variable'', Some ''exit status 1''))"

definition empty_world :: world where
  "empty_world = \<lparr>files = Map.empty, procs = []\<rparr>"

definition stale_world :: world where
  "stale_world = \<lparr>files = [''A/terraform.tfstate'' \<mapsto> Contents []], procs = []\<rparr>"

definition model_A :: "string list \<Rightarrow> ApplyResourceModel" where
  "model_A args = \<lparr>WorkingDir = StringValue ''A'',
                   Args = ListValue (map StringValue args), Id_attr = StringUnknown\<rparr>"

definition decoded :: "ApplyResourceModel \<Rightarrow> tfsdk_data" where
  "decoded m = \<lparr>Get_diags = [], Get_data = m\<rparr>"

definition null_model :: ApplyResourceModel where
  "null_model = \<lparr>WorkingDir = StringNull, Args = ListNull, Id_attr = StringNull\<rparr>"

definition fresh_resp :: Response where
  "fresh_resp = \<lparr>Diagnostics = [], State = decoded null_model\<rparr>"

section \<open>Lemmas\<close>

subsection \<open>Diagnostics\<close>

lemma Append_Nil: "Append ds [] = ds"
  by (simp add: Append_def)

lemma HasError_append: "HasError (xs @ ys) = (HasError xs \<or> HasError ys)"
  by (auto simp: HasError_def list_ex_iff)

lemma HasError_Append: "HasError (Append ds new) = (HasError ds \<or> HasError new)"
proof (induction new arbitrary: ds)
  case Nil
  then show ?case by (simp add: Append_def HasError_def)
next
  case (Cons d new)
  have step: "Append ds (d # new) = Append (if d \<in> set ds then ds else ds @ [d]) new"
    by (simp add: Append_def)
  show ?case
    unfolding step Cons.IH
    by (auto simp: HasError_def list_ex_iff)
qed

lemma HasError_AddError: "HasError (AddError s d ds)"
  by (simp add: AddError_def HasError_Append) (simp add: HasError_def)

lemma HasError_Nil: "\<not> HasError []"
  by (simp add: HasError_def)

lemma set_Append: "set (Append ds new) = set ds \<union> set new"
proof (induction new arbitrary: ds)
  case Nil
  then show ?case by (simp add: Append_def)
next
  case (Cons d new)
  have step: "Append ds (d # new) = Append (if d \<in> set ds then ds else ds @ [d]) new"
    by (simp add: Append_def)
  show ?case unfolding step Cons.IH by auto
qed

subsection \<open>The digest and its rendering\<close>

lemma length_sha256_Sum: "length (sha256_Sum m) = 32"
  by (simp add: sha256_Sum_def be_bytes_def split: prod.splits)

lemma hexdigit_range: "hexdigit n \<in> set ''0123456789abcdef''"
proof -
  have "n mod 16 < length ''0123456789abcdef''" by simp
  then show ?thesis unfolding hexdigit_def by (rule nth_mem)
qed

lemma length_Sprintf_x: "length (Sprintf_x bs) = 2 * length bs"
  by (induction bs) (simp_all add: Sprintf_x_def)

lemma set_Sprintf_x: "set (Sprintf_x bs) \<subseteq> set ''0123456789abcdef''"
  unfolding Sprintf_x_def using hexdigit_range by auto

text \<open>The digest function on the two test messages of the standard and on no bytes.\<close>

lemma sha256_empty:
  "Sprintf_x (sha256_Sum []) = ''e3b0c44298fc1c149afbf4c8996fb92427ae41e4649b934ca495991b7852b855''"
  by code_simp

lemma sha256_abc:
  "Sprintf_x (sha256_Sum (bytes_of ''abc'')) = ''ba7816bf8f01cfea414140de5dae2223b00361a396177a9cb410ff61f20015ad''"
  by code_simp

lemma sha256_two_blocks:
  "Sprintf_x (sha256_Sum (bytes_of ''abcdbcdecdefdefgefghfghighijhijkijkljklmklmnlmnomnopnopq'')) = ''248d6a61d20638b8e5c026930c3e6039a33ce45964ff2167f6ecedd419db06c1''"
  by code_simp

subsection \<open>Identity resolution\<close>

lemma ID_missing:
  assumes "files w (artifact m) = None"
  shows "ID w m = ([], Some (''Unable to open terraform.tfstate, got error: open ''
                              @ artifact m @ '': no such file or directory''))"
  using assms by (simp add: ID_def os_Open_def)

lemma ID_readable:
  assumes "files w (artifact m) = Some (Contents bs)"
  shows "ID w m = (Sprintf_x (sha256_Sum bs), None)"
  using assms by (simp add: ID_def os_Open_def)

lemma ID_error_empty: "snd (ID w m) \<noteq> None \<Longrightarrow> fst (ID w m) = []"
  by (simp add: ID_def split: sum.splits)

subsection \<open>The provisioning cycle\<close>

lemma doApply_init_ok:
  assumes "tf (init_cmd data) w = (fs, out, None)"
      and "ElementsAs (Args data) = ([], args)"
      and "tf (apply_cmd data args) (w\<lparr>files := fs, procs := procs w @ [init_cmd data]\<rparr>)
             = (fs2, out2, err2)"
  shows "doApply tf w data =
           (w\<lparr>files := fs2, procs := procs w @ [init_cmd data, apply_cmd data args]\<rparr>,
            case err2 of
              None \<Rightarrow> None
            | Some e \<Rightarrow> Some (''terraform apply failed, got error: '' @ e @ '', output: '' @ out2))"
  using assms by (simp add: doApply_def Run_def HasError_def split: option.splits)

lemma doApply_init_failed:
  assumes "tf (init_cmd data) w = (fs, out, Some e)"
  shows "doApply tf w data =
           (w\<lparr>files := fs, procs := procs w @ [init_cmd data]\<rparr>,
            Some (''terraform init failed, got error: '' @ e @ '', output: '' @ out))"
  using assms by (simp add: doApply_def Run_def)

lemma doApply_procs_cases:
  "procs (fst (doApply tf w data)) = procs w @ [init_cmd data]
   \<or> procs (fst (doApply tf w data)) =
        procs w @ [init_cmd data, apply_cmd data (snd (ElementsAs (Args data)))]"
proof -
  obtain fs out err where init: "tf (init_cmd data) w = (fs, out, err)"
    by (cases "tf (init_cmd data) w")
  obtain diag args where el: "ElementsAs (Args data) = (diag, args)"
    by (cases "ElementsAs (Args data)")
  obtain fs2 out2 err2 where
    app: "tf (apply_cmd data args) (w\<lparr>files := fs, procs := procs w @ [init_cmd data]\<rparr>)
            = (fs2, out2, err2)"
    by (cases "tf (apply_cmd data args) (w\<lparr>files := fs, procs := procs w @ [init_cmd data]\<rparr>)")
  show ?thesis
    by (simp add: doApply_def Run_def init el app split: option.splits)
qed

lemma doApply_procs:
  "take (Suc (length (procs w))) (procs (fst (doApply tf w data))) = procs w @ [init_cmd data]"
  using doApply_procs_cases [of tf w data] by auto

lemma doApply_sample:
  "doApply tf_sample w (model_A args) =
     (w\<lparr>files := (files w)(''A/terraform.tfstate'' \<mapsto> Contents (bytes_of ''abc'')),
        procs := procs w @ [init_cmd (model_A args), apply_cmd (model_A args) args]\<rparr>, None)"
proof -
  have el: "ElementsAs (Args (model_A args)) = ([], args)"
    by (simp add: ElementsAs_def model_A_def list_all_iff comp_def)
  have init: "tf_sample (init_cmd (model_A args)) w
                = (files w, ''Terraform has been successfully initialized!'', None)"
    by (simp add: tf_sample_def init_cmd_def CommandContext_def)
  have app: "tf_sample (apply_cmd (model_A args) args)
                (w\<lparr>files := files w, procs := procs w @ [init_cmd (model_A args)]\<rparr>)
              = ((files w)(''A/terraform.tfstate'' \<mapsto> Contents (bytes_of ''abc'')),
                 ''Apply complete!'', None)"
    by (simp add: tf_sample_def apply_cmd_def CommandContext_def model_A_def filepath_Join_def)
  show ?thesis
    by (simp only: doApply_init_ok [OF init el app] option.case)
qed

subsection \<open>The lifecycle verbs\<close>

lemma Read_decoded:
  assumes "\<not> HasError (Append (Diagnostics resp) (Get_diags (read_State req)))"
  shows "Read w req resp =
           (w, \<lparr>Diagnostics =
                   (case snd (ID w (Get_data (read_State req))) of
                      None \<Rightarrow> Append (Diagnostics resp) (Get_diags (read_State req))
                    | Some e \<Rightarrow> AddError ''Client Error'' (''Unable to get ID, got error: '' @ e)
                                 (Append (Diagnostics resp) (Get_diags (read_State req)))),
                 State = \<lparr>Get_diags = [],
                           Get_data = (Get_data (read_State req))
                             \<lparr>Id_attr := StringValue (fst (ID w (Get_data (read_State req))))\<rparr>\<rparr>\<rparr>)"
  using assms
  by (cases "ID w (Get_data (read_State req))")
     (simp add: Read_def Get_def State_Set_def Append_Nil split: option.splits)

lemma Read_undecoded:
  assumes "HasError (Append (Diagnostics resp) (Get_diags (read_State req)))"
  shows "Read w req resp =
           (w, resp\<lparr>Diagnostics := Append (Diagnostics resp) (Get_diags (read_State req))\<rparr>)"
  using assms by (simp add: Read_def Get_def)

lemma Create_decoded:
  assumes "\<not> HasError (Append (Diagnostics resp) (Get_diags (create_Plan req)))"
  shows "Create tf w req resp =
     (fst (doApply tf w (Get_data (create_Plan req))),
      \<lparr>Diagnostics =
         (let ds0 = Append (Diagnostics resp) (Get_diags (create_Plan req));
              ds1 = (case snd (doApply tf w (Get_data (create_Plan req))) of
                       None \<Rightarrow> ds0
                     | Some e \<Rightarrow> AddError ''Client Error''
                         (''Unable to run terraform apply, got error: '' @ e) ds0)
          in case snd (ID (fst (doApply tf w (Get_data (create_Plan req)))) (Get_data (create_Plan req))) of
               None \<Rightarrow> ds1
             | Some e \<Rightarrow> AddError ''Client Error'' (''Unable to get ID, got error: '' @ e) ds1),
       State = \<lparr>Get_diags = [],
                 Get_data = (Get_data (create_Plan req))
                   \<lparr>Id_attr := StringValue
                      (fst (ID (fst (doApply tf w (Get_data (create_Plan req)))) (Get_data (create_Plan req))))\<rparr>\<rparr>\<rparr>)"
  using assms
  by (cases "doApply tf w (Get_data (create_Plan req))";
      cases "ID (fst (doApply tf w (Get_data (create_Plan req)))) (Get_data (create_Plan req))"; cases resp)
     (simp add: Create_def Get_def State_Set_def Append_Nil Let_def split: option.splits)

lemma Update_decoded:
  assumes "\<not> HasError (Append (Diagnostics resp) (Get_diags (update_Plan req)))"
  shows "Update tf w req resp =
     (fst (doApply tf w (Get_data (update_Plan req))),
      \<lparr>Diagnostics =
         (let ds0 = Append (Diagnostics resp) (Get_diags (update_Plan req));
              ds1 = (case snd (doApply tf w (Get_data (update_Plan req))) of
                       None \<Rightarrow> ds0
                     | Some e \<Rightarrow> AddError ''Client Error''
                         (''Unable to run terraform apply, got error: '' @ e) ds0)
          in case snd (ID (fst (doApply tf w (Get_data (update_Plan req)))) (Get_data (update_Plan req))) of
               None \<Rightarrow> ds1
             | Some e \<Rightarrow> AddError ''Client Error'' (''Unable to get ID, got error: '' @ e) ds1),
       State = \<lparr>Get_diags = [],
                 Get_data = (Get_data (update_Plan req))
                   \<lparr>Id_attr := StringValue
                      (fst (ID (fst (doApply tf w (Get_data (update_Plan req)))) (Get_data (update_Plan req))))\<rparr>\<rparr>\<rparr>)"
  using assms
  by (cases "doApply tf w (Get_data (update_Plan req))";
      cases "ID (fst (doApply tf w (Get_data (update_Plan req)))) (Get_data (update_Plan req))"; cases resp)
     (simp add: Update_def Get_def State_Set_def Append_Nil Let_def split: option.splits)

lemma fresh_decoded: "\<not> HasError (Append (Diagnostics fresh_resp) (Get_diags (decoded m)))"
  by (simp add: fresh_resp_def decoded_def Append_def HasError_def)

lemma decoded_sel: "Get_data (decoded m) = m" "Get_diags (decoded m) = []"
  by (simp_all add: decoded_def)

section \<open>The claims\<close>

text \<open>
  C1. The claim is that a \<open>Create\<close> in which a step fails aborts before an identity is
  stored. Two runs of \<open>Create\<close> show what the code does. In the first, \<open>init\<close> fails in a
  directory that still holds a state artifact: \<open>Create\<close> reports the error, goes on to
  resolve the identity and stores the digest of the old artifact. In the second,
  \<open>apply\<close> fails and there is no artifact: \<open>Create\<close> reports both errors and stores a
  record whose identity is the empty string.
\<close>

theorem Create_stores_identity_after_failure:
  "Create tf_init_fails stale_world \<lparr>create_Plan = decoded (model_A [])\<rparr> fresh_resp =
     (stale_world\<lparr>procs := [init_cmd (model_A [])]\<rparr>,
      \<lparr>Diagnostics =
         [\<lparr>Severity = SeverityError, Summary = ''Client Error'',
           Detail = ''Unable to run terraform apply, got error: terraform init failed, got error: exit status 1, output: Error: Failed to query available provider packages''\<rparr>],
       State = decoded ((model_A [])\<lparr>Id_attr := StringValue
          ''e3b0c44298fc1c149afbf4c8996fb92427ae41e4649b934ca495991b7852b855''\<rparr>)\<rparr>)
   \<and> Create tf_apply_fails empty_world \<lparr>create_Plan = decoded (model_A [])\<rparr> fresh_resp =
     (empty_world\<lparr>procs := [init_cmd (model_A []), apply_cmd (model_A []) []]\<rparr>,
      \<lparr>Diagnostics =
         [\<lparr>Severity = SeverityError, Summary = ''Client Error'',
           Detail = ''Unable to run terraform apply, got error: terraform apply failed, got error: exit status 1, output: Error: Invalid value for variable''\<rparr>,
          \<lparr>Severity = SeverityError, Summary = ''Client Error'',
           Detail = ''Unable to get ID, got error: Unable to open terraform.tfstate, got error: open A/terraform.tfstate: no such file or directory''\<rparr>],
       State = decoded ((model_A [])\<lparr>Id_attr := StringValue []\<rparr>)\<rparr>)"
proof -
  have d1: "doApply tf_init_fails stale_world (model_A []) =
      (stale_world\<lparr>procs := [init_cmd (model_A [])]\<rparr>,
       Some ''terraform init failed, got error: exit status 1, output: Error: Failed to query available provider packages'')"
    by (simp add: doApply_def Run_def tf_init_fails_def stale_world_def)
  have f1: "files (stale_world\<lparr>procs := [init_cmd (model_A [])]\<rparr>) (artifact (model_A []))
              = Some (Contents [])"
    by (simp add: stale_world_def artifact_def model_A_def filepath_Join_def)
  have d2: "doApply tf_apply_fails empty_world (model_A []) =
      (empty_world\<lparr>procs := [init_cmd (model_A []), apply_cmd (model_A []) []]\<rparr>,
       Some ''terraform apply failed, got error: exit status 1, output: Error: Invalid value for variable'')"
    by (simp add: doApply_def Run_def tf_apply_fails_def empty_world_def model_A_def ElementsAs_def
          HasError_def init_cmd_def apply_cmd_def CommandContext_def)
  have f2: "files (empty_world\<lparr>procs := [init_cmd (model_A []), apply_cmd (model_A []) []]\<rparr>)
              (artifact (model_A [])) = None"
    by (simp add: empty_world_def)
  have art: "artifact (model_A []) = ''A/terraform.tfstate''"
    by (simp add: artifact_def model_A_def filepath_Join_def)
  show ?thesis
    using fresh_decoded [of "model_A []"]
    by (simp add: Create_decoded decoded_sel d1 d2 ID_readable [OF f1]
          ID_missing [OF f2] sha256_empty art)
       (simp add: decoded_def fresh_resp_def AddError_def Append_def)
qed

text \<open>
  C2. When the \<open>init\<close> process ends with an error, \<open>doApply\<close> has started exactly one
  process, \<open>terraform init\<close>, so \<open>apply\<close> was not started; the error it returns names
  \<open>terraform init\<close> and carries the error of the process and the output captured from it.
\<close>

theorem doApply_init_failure:
  assumes "snd (snd (tf (init_cmd data) w)) = Some e"
  shows "procs (fst (doApply tf w data)) = procs w @ [init_cmd data]
       \<and> cmd_Args (init_cmd data) = [''terraform'', ''init'']
       \<and> snd (doApply tf w data) =
           Some (''terraform init failed, got error: '' @ e @ '', output: ''
                   @ fst (snd (tf (init_cmd data) w)))"
proof -
  obtain fs out where tf: "tf (init_cmd data) w = (fs, out, Some e)"
    using assms by (cases "tf (init_cmd data) w") auto
  show ?thesis
    by (simp add: doApply_def Run_def tf) (simp add: init_cmd_def CommandContext_def)
qed

theorem doApply_init_failure_witness:
  "procs (fst (doApply tf_init_fails empty_world (model_A []))) = [init_cmd (model_A [])]
   \<and> snd (doApply tf_init_fails empty_world (model_A [])) =
       Some ''terraform init failed, got error: exit status 1, output: Error: Failed to query available provider packages''"
  using doApply_init_failure [of tf_init_fails "model_A []" empty_world "''exit status 1''"]
  by (simp add: tf_init_fails_def empty_world_def)

text \<open>
  C3. When the working directory has no \<open>terraform.tfstate\<close>, \<open>ID\<close> returns an error
  saying that the file could not be opened because there is no such file; the error is
  not \<open>nil\<close>, so the empty string returned beside it is not a successful identity. A
  \<open>Read\<close> of such a directory always ends with an error diagnostic, and when the state
  decodes the diagnostic carries the message of \<open>ID\<close>.
\<close>

theorem ID_missing_artifact:
  assumes "files w (artifact m) = None"
  shows "ID w m = ([], Some (''Unable to open terraform.tfstate, got error: open ''
                              @ artifact m @ '': no such file or directory''))
       \<and> (Get_data (read_State req) = m \<longrightarrow>
            HasError (Diagnostics (snd (Read w req resp))))
       \<and> (Get_data (read_State req) = m
            \<and> \<not> HasError (Append (Diagnostics resp) (Get_diags (read_State req))) \<longrightarrow>
            \<lparr>Severity = SeverityError, Summary = ''Client Error'',
             Detail = ''Unable to get ID, got error: Unable to open terraform.tfstate, got error: open ''
                        @ artifact m @ '': no such file or directory''\<rparr>
              \<in> set (Diagnostics (snd (Read w req resp))))"
proof (intro conjI impI)
  show id: "ID w m = ([], Some (''Unable to open terraform.tfstate, got error: open ''
                              @ artifact m @ '': no such file or directory''))"
    by (rule ID_missing [OF assms])
  show "HasError (Diagnostics (snd (Read w req resp)))" if m: "Get_data (read_State req) = m"
  proof (cases "HasError (Append (Diagnostics resp) (Get_diags (read_State req)))")
    case True
    then show ?thesis by (simp add: Read_undecoded)
  next
    case False
    then show ?thesis by (simp add: Read_decoded m id HasError_AddError)
  qed
  show "\<lparr>Severity = SeverityError, Summary = ''Client Error'',
             Detail = ''Unable to get ID, got error: Unable to open terraform.tfstate, got error: open ''
                        @ artifact m @ '': no such file or directory''\<rparr>
              \<in> set (Diagnostics (snd (Read w req resp)))"
    if "Get_data (read_State req) = m
            \<and> \<not> HasError (Append (Diagnostics resp) (Get_diags (read_State req)))"
    using that by (simp add: Read_decoded id AddError_def set_Append)
qed

theorem ID_missing_artifact_witness:
  "ID empty_world (model_A []) =
     ([], Some ''Unable to open terraform.tfstate, got error: open A/terraform.tfstate: no such file or directory'')
   \<and> Diagnostics (snd (Read empty_world \<lparr>read_State = decoded (model_A [])\<rparr> fresh_resp)) =
       [\<lparr>Severity = SeverityError, Summary = ''Client Error'',
         Detail = ''Unable to get ID, got error: Unable to open terraform.tfstate, got error: open A/terraform.tfstate: no such file or directory''\<rparr>]"
proof -
  have none: "files empty_world (artifact (model_A [])) = None"
    by (simp add: empty_world_def)
  have art: "artifact (model_A []) = ''A/terraform.tfstate''"
    by (simp add: artifact_def model_A_def filepath_Join_def)
  have dec: "\<not> HasError (Append (Diagnostics fresh_resp)
                 (Get_diags (read_State \<lparr>read_State = decoded (model_A [])\<rparr>)))"
    by (simp add: fresh_resp_def decoded_def Append_def HasError_def)
  from ID_missing_artifact [OF none, of "\<lparr>read_State = decoded (model_A [])\<rparr>" fresh_resp]
  have id: "ID empty_world (model_A []) =
     ([], Some ''Unable to open terraform.tfstate, got error: open A/terraform.tfstate: no such file or directory'')"
    by (simp add: art)
  show ?thesis
    using id dec
    by (simp add: Read_decoded decoded_def fresh_resp_def AddError_def Append_def)
qed

text \<open>
  C4. When \<open>terraform.tfstate\<close> holds the bytes \<open>bs\<close>, the identity is the SHA-256
  digest of \<open>bs\<close> written in hexadecimal: 64 characters, each a digit or a lowercase
  letter from \<open>a\<close> to \<open>f\<close>. Nothing else of the world or of the model enters the
  result, and the bytes are hashed as they are.
\<close>

theorem ID_sha256_hex:
  assumes "files w (artifact m) = Some (Contents bs)"
  shows "ID w m = (Sprintf_x (sha256_Sum bs), None)
       \<and> length (fst (ID w m)) = 64
       \<and> set (fst (ID w m)) \<subseteq> set ''0123456789abcdef''"
  by (simp only: ID_readable [OF assms] fst_conv length_Sprintf_x length_sha256_Sum
        set_Sprintf_x) simp

theorem ID_sha256_hex_witness:
  "ID (fst (doApply tf_sample empty_world (model_A []))) (model_A []) =
     (''ba7816bf8f01cfea414140de5dae2223b00361a396177a9cb410ff61f20015ad'', None)"
proof -
  have w: "fst (doApply tf_sample empty_world (model_A [])) =
             \<lparr>files = [''A/terraform.tfstate'' \<mapsto> Contents (bytes_of ''abc'')],
              procs = [init_cmd (model_A []), apply_cmd (model_A []) []]\<rparr>"
    by (simp add: doApply_def Run_def tf_sample_def empty_world_def model_A_def ElementsAs_def
          HasError_def init_cmd_def apply_cmd_def CommandContext_def filepath_Join_def)
  have "files (fst (doApply tf_sample empty_world (model_A []))) (artifact (model_A []))
          = Some (Contents (bytes_of ''abc''))"
    unfolding w by (simp add: artifact_def model_A_def filepath_Join_def)
  from ID_sha256_hex [OF this] show ?thesis
    by (simp add: sha256_abc)
qed

text \<open>
  C5. The identity depends on the bytes of the artifact only: two resolutions that find
  the same bytes return the same result, in whatever world and for whatever model. Two
  \<open>Read\<close> calls in a row, the second on the state the first has stored, leave the world
  unchanged and store the same identity.
\<close>

theorem ID_deterministic:
  assumes "files w (artifact m) = Some (Contents bs)"
      and "files w' (artifact m') = Some (Contents bs)"
  shows "ID w m = ID w' m'
       \<and> (Get_data (read_State req) = m
            \<and> \<not> HasError (Append (Diagnostics resp) (Get_diags (read_State req))) \<longrightarrow>
          (let (w1, r1) = Read w req resp;
               (w2, r2) = Read w1 \<lparr>read_State = State r1\<rparr> (r1\<lparr>Diagnostics := []\<rparr>)
           in w1 = w \<and> w2 = w
              \<and> Id_attr (Get_data (State r1)) = StringValue (Sprintf_x (sha256_Sum bs))
              \<and> Id_attr (Get_data (State r2)) = Id_attr (Get_data (State r1))))"
proof (intro conjI impI)
  show "ID w m = ID w' m'"
    by (simp add: ID_readable [OF assms(1)] ID_readable [OF assms(2)])
next
  assume a: "Get_data (read_State req) = m
            \<and> \<not> HasError (Append (Diagnostics resp) (Get_diags (read_State req)))"
  define m1 where "m1 = m\<lparr>Id_attr := StringValue (Sprintf_x (sha256_Sum bs))\<rparr>"
  have art: "artifact m1 = artifact m"
    by (simp add: m1_def artifact_def)
  have id1: "ID w m1 = (Sprintf_x (sha256_Sum bs), None)"
    by (rule ID_readable) (simp add: art assms(1))
  have r1: "Read w req resp =
          (w, \<lparr>Diagnostics = Append (Diagnostics resp) (Get_diags (read_State req)),
               State = \<lparr>Get_diags = [], Get_data = m1\<rparr>\<rparr>)"
    using a by (simp add: Read_decoded ID_readable [OF assms(1)] m1_def)
  have r2: "Read w \<lparr>read_State = \<lparr>Get_diags = [], Get_data = m1\<rparr>\<rparr>
              \<lparr>Diagnostics = [], State = \<lparr>Get_diags = [], Get_data = m1\<rparr>\<rparr> =
          (w, \<lparr>Diagnostics = [], State = \<lparr>Get_diags = [], Get_data = m1\<rparr>\<rparr>)"
    by (simp add: Read_decoded Append_Nil HasError_Nil id1) (simp add: m1_def)
  show "let (w1, r1) = Read w req resp;
               (w2, r2) = Read w1 \<lparr>read_State = State r1\<rparr> (r1\<lparr>Diagnostics := []\<rparr>)
           in w1 = w \<and> w2 = w
              \<and> Id_attr (Get_data (State r1)) = StringValue (Sprintf_x (sha256_Sum bs))
              \<and> Id_attr (Get_data (State r2)) = Id_attr (Get_data (State r1))"
    by (simp add: r1 r2) (simp add: m1_def)
qed

theorem ID_deterministic_witness:
  "ID stale_world (model_A []) = ID stale_world (model_A [''-var=a=1''])
   \<and> Id_attr (Get_data (State (snd (Read stale_world \<lparr>read_State = decoded (model_A [])\<rparr> fresh_resp))))
       = StringValue ''e3b0c44298fc1c149afbf4c8996fb92427ae41e4649b934ca495991b7852b855''"
proof -
  have f1: "files stale_world (artifact (model_A [])) = Some (Contents [])"
    by (simp add: stale_world_def artifact_def model_A_def filepath_Join_def)
  have f2: "files stale_world (artifact (model_A [''-var=a=1''])) = Some (Contents [])"
    by (simp add: stale_world_def artifact_def model_A_def filepath_Join_def)
  have dec: "Get_data (read_State \<lparr>read_State = decoded (model_A [])\<rparr>) = model_A []
       \<and> \<not> HasError (Append (Diagnostics fresh_resp)
                 (Get_diags (read_State \<lparr>read_State = decoded (model_A [])\<rparr>)))"
    by (simp add: fresh_resp_def decoded_def Append_def HasError_def)
  from ID_deterministic [OF f1 f2, of "\<lparr>read_State = decoded (model_A [])\<rparr>" fresh_resp] dec
  show ?thesis
    by (simp add: sha256_empty split: prod.splits)
qed

text \<open>
  C6. When \<open>init\<close> succeeds and the caller's arguments are the strings \<open>args\<close> (no
  strings when the attribute is null), the second process that \<open>doApply\<close> starts has
  the argument vector \<open>terraform apply -auto-approve\<close> followed by exactly \<open>args\<close>, in
  the caller's order.
\<close>

theorem doApply_apply_arguments:
  assumes "snd (snd (tf (init_cmd data) w)) = None"
      and "Args data = ListValue (map StringValue args) \<or> Args data = ListNull \<and> args = []"
  shows "procs (fst (doApply tf w data)) = procs w @ [init_cmd data, apply_cmd data args]
       \<and> cmd_Args (apply_cmd data args) = [''terraform'', ''apply'', ''-auto-approve''] @ args"
proof -
  have "list_all is_known (map StringValue args)"
    by (induction args) simp_all
  moreover have "map ValueString (map StringValue args) = args"
    by (induction args) simp_all
  ultimately have "ElementsAs (Args data) = ([], args)"
    using assms(2) by (auto simp: ElementsAs_def)
  then have args: "ElementsAs (Args data) = ([], args)" .
  obtain fs out where init: "tf (init_cmd data) w = (fs, out, None)"
    using assms(1) by (cases "tf (init_cmd data) w") auto
  obtain fs2 out2 err2 where
    app: "tf (apply_cmd data args) (w\<lparr>files := fs, procs := procs w @ [init_cmd data]\<rparr>)
            = (fs2, out2, err2)"
    by (cases "tf (apply_cmd data args) (w\<lparr>files := fs, procs := procs w @ [init_cmd data]\<rparr>)")
  show ?thesis
    by (simp add: doApply_init_ok [OF init args app]) (simp add: apply_cmd_def CommandContext_def)
qed

theorem doApply_apply_arguments_witness:
  "procs (fst (doApply tf_sample empty_world (model_A [''-var=a=1'', ''-var=b=2'']))) =
     [\<lparr>cmd_Path = ''terraform'', cmd_Args = [''terraform'', ''init''], cmd_Dir = ''A''\<rparr>,
      \<lparr>cmd_Path = ''terraform'',
       cmd_Args = [''terraform'', ''apply'', ''-auto-approve'', ''-var=a=1'', ''-var=b=2''],
       cmd_Dir = ''A''\<rparr>]"
  using doApply_apply_arguments [of tf_sample "model_A [''-var=a=1'', ''-var=b=2'']" empty_world
           "[''-var=a=1'', ''-var=b=2'']"]
  by (simp add: tf_sample_def empty_world_def model_A_def init_cmd_def apply_cmd_def
                CommandContext_def)

text \<open>
  C7. \<open>Update\<close> is \<open>Create\<close> on the same plan, whatever the prior state of the
  request is. When the plan decodes, the world after \<open>Update\<close> is the world after
  \<open>doApply\<close>, whose first new process is \<open>terraform init\<close>, and the identity stored is
  the one \<open>ID\<close> resolves in that world.
\<close>

theorem Update_same_as_Create:
  "Update tf w req resp = Create tf w \<lparr>create_Plan = update_Plan req\<rparr> resp
   \<and> Update tf w (req\<lparr>update_State := prior\<rparr>) resp = Update tf w req resp
   \<and> (\<not> HasError (Append (Diagnostics resp) (Get_diags (update_Plan req))) \<longrightarrow>
        fst (Update tf w req resp) = fst (doApply tf w (Get_data (update_Plan req)))
        \<and> State (snd (Update tf w req resp)) =
            \<lparr>Get_diags = [],
             Get_data = (Get_data (update_Plan req))
               \<lparr>Id_attr := StringValue
                  (fst (ID (fst (doApply tf w (Get_data (update_Plan req))))
                           (Get_data (update_Plan req))))\<rparr>\<rparr>
        \<and> take (Suc (length (procs w))) (procs (fst (Update tf w req resp)))
            = procs w @ [init_cmd (Get_data (update_Plan req))])"
proof (intro conjI impI)
  show "Update tf w req resp = Create tf w \<lparr>create_Plan = update_Plan req\<rparr> resp"
    by (simp add: Update_def Create_def)
  show "Update tf w (req\<lparr>update_State := prior\<rparr>) resp = Update tf w req resp"
    by (simp add: Update_def)
next
  assume dec: "\<not> HasError (Append (Diagnostics resp) (Get_diags (update_Plan req)))"
  note u = Update_decoded [OF dec]
  show "fst (Update tf w req resp) = fst (doApply tf w (Get_data (update_Plan req)))"
    by (simp add: u)
  show "State (snd (Update tf w req resp)) =
            \<lparr>Get_diags = [],
             Get_data = (Get_data (update_Plan req))
               \<lparr>Id_attr := StringValue
                  (fst (ID (fst (doApply tf w (Get_data (update_Plan req))))
                           (Get_data (update_Plan req))))\<rparr>\<rparr>"
    by (simp add: u)
  show "take (Suc (length (procs w))) (procs (fst (Update tf w req resp)))
            = procs w @ [init_cmd (Get_data (update_Plan req))]"
    by (simp add: u doApply_procs)
qed

theorem Update_same_as_Create_witness:
  "Update tf_sample stale_world
      \<lparr>update_Plan = decoded (model_A [''-var=value=cool'']), update_State = decoded (model_A [])\<rparr>
      fresh_resp
    = Create tf_sample stale_world \<lparr>create_Plan = decoded (model_A [''-var=value=cool''])\<rparr> fresh_resp
   \<and> procs (fst (Update tf_sample stale_world
      \<lparr>update_Plan = decoded (model_A [''-var=value=cool'']), update_State = decoded (model_A [])\<rparr>
      fresh_resp))
      = [init_cmd (model_A [''-var=value=cool'']),
         apply_cmd (model_A [''-var=value=cool'']) [''-var=value=cool'']]"
proof -
  let ?req = "\<lparr>update_Plan = decoded (model_A [''-var=value=cool'']),
               update_State = decoded (model_A [])\<rparr>"
  note th = Update_same_as_Create [of tf_sample stale_world ?req fresh_resp "decoded (model_A [])"]
  have dec: "\<not> HasError (Append (Diagnostics fresh_resp) (Get_diags (update_Plan ?req)))"
    by (simp add: fresh_decoded)
  have plan: "Get_data (update_Plan ?req) = model_A [''-var=value=cool'']"
    by (simp add: decoded_def)
  from th have eq: "Update tf_sample stale_world ?req fresh_resp
      = Create tf_sample stale_world \<lparr>create_Plan = update_Plan ?req\<rparr> fresh_resp"
    by (rule conjunct1)
  from th dec have "fst (Update tf_sample stale_world ?req fresh_resp)
      = fst (doApply tf_sample stale_world (Get_data (update_Plan ?req)))"
    by blast
  then have tr: "procs (fst (Update tf_sample stale_world ?req fresh_resp))
      = [init_cmd (model_A [''-var=value=cool'']),
         apply_cmd (model_A [''-var=value=cool'']) [''-var=value=cool'']]"
    by (simp only: plan doApply_sample) (simp add: stale_world_def)
  from eq tr show ?thesis by simp
qed

text \<open>
  C8. \<open>Read\<close> leaves the world as it is: it starts no process and changes no file.
  When the state decodes, it stores the decoded record with the identity that \<open>ID\<close>
  resolves from the files as they are.
\<close>

theorem Read_does_not_provision:
  "fst (Read w req resp) = w
   \<and> procs (fst (Read w req resp)) = procs w
   \<and> files (fst (Read w req resp)) = files w
   \<and> (\<not> HasError (Append (Diagnostics resp) (Get_diags (read_State req))) \<longrightarrow>
        State (snd (Read w req resp)) =
          \<lparr>Get_diags = [],
           Get_data = (Get_data (read_State req))
             \<lparr>Id_attr := StringValue (fst (ID w (Get_data (read_State req))))\<rparr>\<rparr>)"
proof (cases "HasError (Append (Diagnostics resp) (Get_diags (read_State req)))")
  case True
  then show ?thesis by (simp add: Read_undecoded)
next
  case False
  then show ?thesis by (simp add: Read_decoded)
qed

theorem Read_does_not_provision_witness:
  "fst (Read stale_world \<lparr>read_State = decoded (model_A [])\<rparr> fresh_resp) = stale_world
   \<and> procs (fst (Read stale_world \<lparr>read_State = decoded (model_A [])\<rparr> fresh_resp)) = []
   \<and> State (snd (Read stale_world \<lparr>read_State = decoded (model_A [])\<rparr> fresh_resp)) =
       decoded ((model_A [])\<lparr>Id_attr := StringValue
          ''e3b0c44298fc1c149afbf4c8996fb92427ae41e4649b934ca495991b7852b855''\<rparr>)"
proof -
  let ?req = "\<lparr>read_State = decoded (model_A [])\<rparr>"
  have f: "files stale_world (artifact (model_A [])) = Some (Contents [])"
    by (simp add: stale_world_def artifact_def model_A_def filepath_Join_def)
  have dec: "\<not> HasError (Append (Diagnostics fresh_resp) (Get_diags (read_State ?req)))"
    by (simp add: fresh_decoded)
  have plan: "Get_data (read_State ?req) = model_A []"
    by (simp add: decoded_def)
  note th = Read_does_not_provision [of stale_world ?req fresh_resp]
  from th have w: "fst (Read stale_world ?req fresh_resp) = stale_world"
    by (rule conjunct1)
  from th dec have "State (snd (Read stale_world ?req fresh_resp)) =
          \<lparr>Get_diags = [],
           Get_data = (Get_data (read_State ?req))
             \<lparr>Id_attr := StringValue (fst (ID stale_world (Get_data (read_State ?req))))\<rparr>\<rparr>"
    by blast
  then have st: "State (snd (Read stale_world ?req fresh_resp)) =
       decoded ((model_A [])\<lparr>Id_attr := StringValue
          ''e3b0c44298fc1c149afbf4c8996fb92427ae41e4649b934ca495991b7852b855''\<rparr>)"
    by (simp only: plan ID_readable [OF f] sha256_empty fst_conv) (simp add: decoded_def)
  from w st show ?thesis by (simp add: stale_world_def)
qed

text \<open>
  C9. \<open>Delete\<close> leaves the world as it is: it starts no process and changes no file,
  and it does not touch the state of the response.
\<close>

theorem Delete_is_noop:
  "fst (Delete w req resp) = w
   \<and> procs (fst (Delete w req resp)) = procs w
   \<and> files (fst (Delete w req resp)) = files w
   \<and> State (snd (Delete w req resp)) = State resp"
  by (simp add: Delete_def Get_def)

theorem Delete_is_noop_witness:
  "Delete stale_world \<lparr>delete_State = decoded (model_A [])\<rparr> fresh_resp = (stale_world, fresh_resp)"
proof -
  have "Diagnostics (snd (Delete stale_world \<lparr>delete_State = decoded (model_A [])\<rparr> fresh_resp)) = []"
    by (simp add: Delete_def Get_def decoded_def fresh_resp_def Append_def)
  then show ?thesis
    using Delete_is_noop [of stale_world "\<lparr>delete_State = decoded (model_A [])\<rparr>" fresh_resp]
    by (cases "Delete stale_world \<lparr>delete_State = decoded (model_A [])\<rparr> fresh_resp")
       (auto simp: fresh_resp_def)
qed

text \<open>
  C10. When \<open>ID\<close> returns an error, the string beside it is empty. So when the
  request decodes and the resolution fails, \<open>Create\<close>, \<open>Read\<close> and \<open>Update\<close> store
  the empty string as the identity of the record.
\<close>

theorem ID_error_empty_identity:
  "(snd (ID w m) \<noteq> None \<longrightarrow> fst (ID w m) = [])
   \<and> (\<not> HasError (Append (Diagnostics resp) (Get_diags (create_Plan creq)))
        \<and> snd (ID (fst (doApply tf w (Get_data (create_Plan creq)))) (Get_data (create_Plan creq)))
             \<noteq> None \<longrightarrow>
        Id_attr (Get_data (State (snd (Create tf w creq resp)))) = StringValue [])
   \<and> (\<not> HasError (Append (Diagnostics resp) (Get_diags (read_State rreq)))
        \<and> snd (ID w (Get_data (read_State rreq))) \<noteq> None \<longrightarrow>
        Id_attr (Get_data (State (snd (Read w rreq resp)))) = StringValue [])
   \<and> (\<not> HasError (Append (Diagnostics resp) (Get_diags (update_Plan ureq)))
        \<and> snd (ID (fst (doApply tf w (Get_data (update_Plan ureq)))) (Get_data (update_Plan ureq)))
             \<noteq> None \<longrightarrow>
        Id_attr (Get_data (State (snd (Update tf w ureq resp)))) = StringValue [])"
  by (simp add: Create_decoded Update_decoded Read_decoded ID_error_empty)

theorem ID_error_empty_identity_witness:
  "ID empty_world (model_A []) \<noteq> ([], None)
   \<and> fst (ID empty_world (model_A [])) = []
   \<and> State (snd (Read empty_world \<lparr>read_State = decoded (model_A [])\<rparr> fresh_resp))
       = decoded ((model_A [])\<lparr>Id_attr := StringValue []\<rparr>)
   \<and> State (snd (Create tf_apply_fails empty_world \<lparr>create_Plan = decoded (model_A [])\<rparr> fresh_resp))
       = decoded ((model_A [])\<lparr>Id_attr := StringValue []\<rparr>)"
proof -
  have none: "files empty_world (artifact (model_A [])) = None"
    by (simp add: empty_world_def)
  have w1: "files (fst (doApply tf_apply_fails empty_world (model_A []))) = Map.empty"
    by (simp add: doApply_def Run_def tf_apply_fails_def empty_world_def model_A_def ElementsAs_def
          HasError_def init_cmd_def apply_cmd_def CommandContext_def)
  have err1: "snd (ID empty_world (model_A [])) \<noteq> None"
    by (simp add: ID_missing [OF none])
  have err2: "snd (ID (fst (doApply tf_apply_fails empty_world (model_A []))) (model_A [])) \<noteq> None"
    by (simp add: ID_missing w1)
  from ID_error_empty_identity [of empty_world "model_A []" fresh_resp
        "\<lparr>create_Plan = decoded (model_A [])\<rparr>" tf_apply_fails
        "\<lparr>read_State = decoded (model_A [])\<rparr>"
        "\<lparr>update_Plan = decoded (model_A []), update_State = decoded (model_A [])\<rparr>"]
    err1 err2 fresh_decoded [of "model_A []"]
  have ids: "fst (ID empty_world (model_A [])) = []
    \<and> Id_attr (Get_data (State (snd (Create tf_apply_fails empty_world
          \<lparr>create_Plan = decoded (model_A [])\<rparr> fresh_resp)))) = StringValue []
    \<and> Id_attr (Get_data (State (snd (Read empty_world
          \<lparr>read_State = decoded (model_A [])\<rparr> fresh_resp)))) = StringValue []"
    by (simp add: decoded_def)
  have c: "State (snd (Create tf_apply_fails empty_world \<lparr>create_Plan = decoded (model_A [])\<rparr> fresh_resp))
        = decoded ((model_A [])\<lparr>Id_attr := Id_attr (Get_data (State (snd (Create tf_apply_fails empty_world
          \<lparr>create_Plan = decoded (model_A [])\<rparr> fresh_resp))))\<rparr>)"
    using fresh_decoded [of "model_A []"]
    by (simp add: Create_decoded decoded_def)
  have r: "State (snd (Read empty_world \<lparr>read_State = decoded (model_A [])\<rparr> fresh_resp))
        = decoded ((model_A [])\<lparr>Id_attr := Id_attr (Get_data (State (snd (Read empty_world
          \<lparr>read_State = decoded (model_A [])\<rparr> fresh_resp))))\<rparr>)"
    using fresh_decoded [of "model_A []"]
    by (simp add: Read_decoded decoded_def)
  show ?thesis
    using ids err1 c r by (auto simp: prod_eq_iff)
qed

end
